theory Spec2Isabelle
  imports Main "HOL-Library.AList" "HOL-Library.Multiset"
begin

section \<open>Volkswagen Consortium API: the handlers of server.py over a document store\<close>

text \<open>
  The service keeps its state in a document store and every handler performs one or a
  few store operations. The model passes the store explicitly: a handler takes the
  database (and what the environment supplies: the request, a drawn uuid, the clock)
  and returns the database together with its response; an exception that leaves a
  handler is the left summand of the response.

  Strings are well-formed text, kept as lists of 8-bit characters; text outside ASCII
  is written as its UTF-8 bytes. Integers are Python's, without bound. A \<open>datetime\<close> is
  a point in time as Python holds it, a count of microseconds since the Unix epoch
  (UTC).
\<close>

type_synonym datetime = int

subsection \<open>The pydantic models\<close>

record LeadCreate =
  lc_name :: string
  lc_whatsapp :: string
  lc_city :: string
  lc_model :: string
  lc_source :: string

record Lead =
  lead_id :: string
  lead_name :: string
  lead_whatsapp :: string
  lead_city :: string
  lead_model :: string
  lead_source :: string
  lead_status :: string
  lead_created_at :: datetime

record Car =
  car_id :: string
  car_name :: string
  car_model :: string
  car_year :: int
  car_image :: string
  car_monthly_price :: string
  car_total_credit :: string
  car_installments :: int
  car_highlights :: "string list"
  car_description :: string
  car_is_active :: bool

record Testimonial =
  tm_id :: string
  tm_name :: string
  tm_city :: string
  tm_car :: string
  tm_image :: string
  tm_testimonial :: string
  tm_rating :: int
  tm_contemplated :: bool
  tm_months_to_contemplate :: int
  tm_is_active :: bool

record BlogPost =
  bp_id :: string
  bp_title :: string
  bp_excerpt :: string
  bp_slug :: string
  bp_category :: string
  bp_read_time :: string
  bp_published_at :: datetime
  bp_content :: string
  bp_is_published :: bool

text \<open>
  A handler that declares a model as its body receives it already parsed, with the
  defaults of the class filled in (\<open>source = "hero-form"\<close>, \<open>is_active = True\<close>, a uuid
  for a missing \<open>id\<close>); the records above are such parsed values. An \<open>id\<close> present in the
  body is taken as it is.
\<close>

text \<open>
  A handler raises \<open>HTTPException\<close> itself. An \<open>OverflowError\<close> is raised by the store's
  driver when it encodes a document (see below); no handler catches it, and the
  framework answers such a request with status 500.
\<close>

datatype error = HTTPException (status_code: nat) (detail: string) | OverflowError

subsection \<open>The document store\<close>

text \<open>
  A collection is the list of its documents in natural (insertion) order; no handler
  removes a document. The documents of a collection are the \<open>dict()\<close> of one model, so
  they are kept as records of that model. The store's own \<open>_id\<close> key, which no handler
  reads or sets, appears only as the \<open>inserted_id\<close> of an insertion, modelled by the
  position of the new document.

  The operations below are the store's side: they take documents already encoded.

  \<^item> \<open>insert_one\<close> appends and reports the inserted id;
  \<^item> \<open>update_one\<close> applies the update to the first document that matches the filter;
    \<open>matched_count\<close> counts the documents matched, \<open>modified_count\<close> those that the
    update actually changed (an update that leaves the document as it was modifies
    nothing);
  \<^item> \<open>find\<close> selects, \<open>sort_desc\<close> is \<open>.sort(key, -1)\<close>, \<open>to_list n\<close> keeps at most \<open>n\<close>
    documents of a cursor;
  \<^item> \<open>group_count\<close> is the pipeline \<open>[{"$group": {"_id": "$key", "count": {"$sum": 1}}}]\<close>:
    one pair per distinct key value, with the number of documents that have it.
\<close>

record InsertOneResult =
  inserted_id :: "nat option"

record UpdateResult =
  matched_count :: nat
  modified_count :: nat

definition insert_one :: "'d \<Rightarrow> 'd list \<Rightarrow> InsertOneResult \<times> 'd list" where
  "insert_one doc coll = (\<lparr>inserted_id = Some (length coll)\<rparr>, coll @ [doc])"

definition insert_many :: "'d list \<Rightarrow> 'd list \<Rightarrow> 'd list" where
  "insert_many docs coll = coll @ docs"

fun update_one :: "('d \<Rightarrow> bool) \<Rightarrow> ('d \<Rightarrow> 'd) \<Rightarrow> 'd list \<Rightarrow> UpdateResult \<times> 'd list" where
  "update_one flt upd [] = (\<lparr>matched_count = 0, modified_count = 0\<rparr>, [])"
| "update_one flt upd (d # ds) =
     (if flt d
      then (\<lparr>matched_count = 1, modified_count = (if upd d = d then 0 else 1)\<rparr>, upd d # ds)
      else (fst (update_one flt upd ds), d # snd (update_one flt upd ds)))"

definition count_documents :: "('d \<Rightarrow> bool) \<Rightarrow> 'd list \<Rightarrow> nat" where
  "count_documents flt coll = length (filter flt coll)"

definition find :: "('d \<Rightarrow> bool) \<Rightarrow> 'd list \<Rightarrow> 'd list" where
  "find flt coll = filter flt coll"

definition find_one :: "('d \<Rightarrow> bool) \<Rightarrow> 'd list \<Rightarrow> 'd option" where
  "find_one flt coll = List.find flt coll"

definition sort_desc :: "('d \<Rightarrow> datetime) \<Rightarrow> 'd list \<Rightarrow> 'd list" where
  "sort_desc key cur = sort_key (\<lambda>d. - key d) cur"

definition to_list :: "nat \<Rightarrow> 'd list \<Rightarrow> 'd list" where
  "to_list n cur = take n cur"

definition group_count :: "('d \<Rightarrow> 'k) \<Rightarrow> 'd list \<Rightarrow> ('k \<times> nat) list" where
  "group_count key coll =
     map (\<lambda>k. (k, count_list (map key coll) k)) (remdups (map key coll))"

text \<open>
  Before a command is sent, the driver encodes the documents it carries, and two
  things happen there. An integer is written in 32 or 64 bits: one that does not fit
  in 64 bits signed makes the encoder raise \<open>OverflowError\<close>, and nothing is sent.
  A datetime is written as whole milliseconds since the epoch: the microseconds below
  a millisecond are dropped. \<open>bson_car\<close> and its siblings give the document as the store
  receives it, or \<open>None\<close> when the encoder raises.
\<close>

definition bson_int_ok :: "int \<Rightarrow> bool" where
  "bson_int_ok x \<longleftrightarrow> - (2 ^ 63) \<le> x \<and> x < 2 ^ 63"

definition bson_datetime :: "datetime \<Rightarrow> datetime" where
  "bson_datetime t = t div 1000 * 1000"

definition bson_lead :: "Lead \<Rightarrow> Lead option" where
  "bson_lead l = Some (l\<lparr>lead_created_at := bson_datetime (lead_created_at l)\<rparr>)"

definition bson_car :: "Car \<Rightarrow> Car option" where
  "bson_car c =
     (if bson_int_ok (car_year c) \<and> bson_int_ok (car_installments c) then Some c else None)"

definition bson_testimonial :: "Testimonial \<Rightarrow> Testimonial option" where
  "bson_testimonial t =
     (if bson_int_ok (tm_rating t) \<and> bson_int_ok (tm_months_to_contemplate t)
      then Some t else None)"

definition bson_blog_post :: "BlogPost \<Rightarrow> BlogPost option" where
  "bson_blog_post p = Some (p\<lparr>bp_published_at := bson_datetime (bp_published_at p)\<rparr>)"

record db =
  leads :: "Lead list"
  cars :: "Car list"
  testimonials :: "Testimonial list"
  blog_posts :: "BlogPost list"

definition empty_db :: db where
  "empty_db = \<lparr>leads = [], cars = [], testimonials = [], blog_posts = []\<rparr>"

subsection \<open>Leads endpoints\<close>

text \<open>
  \<open>create_lead\<close>: \<open>uid\<close> is the value of \<open>str(uuid.uuid4())\<close> and \<open>now\<close> that of
  \<open>datetime.utcnow()\<close> at the construction of the \<open>Lead\<close>. The handler answers with
  the \<open>Lead\<close> object it built; the store receives the encoded \<open>dict()\<close> of it.
\<close>

definition Lead_of :: "string \<Rightarrow> datetime \<Rightarrow> LeadCreate \<Rightarrow> Lead" where
  "Lead_of uid now lead_dict =
     \<lparr>lead_id = uid,
      lead_name = lc_name lead_dict,
      lead_whatsapp = lc_whatsapp lead_dict,
      lead_city = lc_city lead_dict,
      lead_model = lc_model lead_dict,
      lead_source = lc_source lead_dict,
      lead_status = ''new'',
      lead_created_at = now\<rparr>"

definition create_lead :: "db \<Rightarrow> string \<Rightarrow> datetime \<Rightarrow> LeadCreate \<Rightarrow> db \<times> (error + Lead)" where
  "create_lead s uid now lead_data =
     (let lead_obj = Lead_of uid now lead_data
      in case bson_lead lead_obj of
           None \<Rightarrow> (s, Inl OverflowError)
         | Some doc \<Rightarrow>
             (let (result, coll) = insert_one doc (leads s);
                  s' = s\<lparr>leads := coll\<rparr>
              in if inserted_id result \<noteq> None
                 then (s', Inr lead_obj)
                 else (s', Inl (HTTPException 400 ''Failed to create lead''))))"

definition get_leads :: "db \<Rightarrow> Lead list" where
  "get_leads s = to_list 1000 (sort_desc lead_created_at (find (\<lambda>_. True) (leads s)))"

record LeadStats =
  total :: nat
  new :: nat
  contacted :: nat
  converted :: nat
  by_source :: "(string \<times> nat) list"

text \<open>
  The \<open>by_source\<close> dictionary is built by the comprehension
  \<open>{source["_id"]: source["count"] for source in sources}\<close>: each pair is stored under
  its key, a later pair replacing the value of an equal earlier key.
\<close>

definition dict_of :: "('k \<times> 'v) list \<Rightarrow> ('k \<times> 'v) list" where
  "dict_of kvs = foldl (\<lambda>m kv. AList.update (fst kv) (snd kv) m) [] kvs"

definition get_lead_stats :: "db \<Rightarrow> LeadStats" where
  "get_lead_stats s =
     (let total_leads = count_documents (\<lambda>_. True) (leads s);
          new_leads = count_documents (\<lambda>l. lead_status l = ''new'') (leads s);
          contacted_leads = count_documents (\<lambda>l. lead_status l = ''contacted'') (leads s);
          converted_leads = count_documents (\<lambda>l. lead_status l = ''converted'') (leads s);
          sources = to_list 100 (group_count lead_source (leads s))
      in \<lparr>total = total_leads,
          new = new_leads,
          contacted = contacted_leads,
          converted = converted_leads,
          by_source = dict_of sources\<rparr>)"

definition update_lead_status :: "db \<Rightarrow> string \<Rightarrow> string \<Rightarrow> db \<times> (error + string)" where
  "update_lead_status s lid status =
     (let (result, coll) =
            update_one (\<lambda>l. lead_id l = lid) (\<lambda>l. l\<lparr>lead_status := status\<rparr>) (leads s);
          s' = s\<lparr>leads := coll\<rparr>
      in if modified_count result \<noteq> 0
         then (s', Inr ''Lead updated successfully'')
         else (s', Inl (HTTPException 404 ''Lead not found'')))"

subsection \<open>Cars endpoints\<close>

definition get_cars :: "db \<Rightarrow> Car list" where
  "get_cars s = to_list 100 (find (\<lambda>c. car_is_active c = True) (cars s))"

definition create_car :: "db \<Rightarrow> Car \<Rightarrow> db \<times> (error + Car)" where
  "create_car s car_data =
     (case bson_car car_data of
        None \<Rightarrow> (s, Inl OverflowError)
      | Some doc \<Rightarrow>
          (let (result, coll) = insert_one doc (cars s);
               s' = s\<lparr>cars := coll\<rparr>
           in if inserted_id result \<noteq> None
              then (s', Inr car_data)
              else (s', Inl (HTTPException 400 ''Failed to create car''))))"

text \<open>
  \<open>{"$set": car_data.dict()}\<close> assigns every key of the encoded payload to the
  document.
\<close>

definition set_car :: "Car \<Rightarrow> Car \<Rightarrow> Car" where
  "set_car car_data d =
     d\<lparr>car_id := car_id car_data,
       car_name := car_name car_data,
       car_model := car_model car_data,
       car_year := car_year car_data,
       car_image := car_image car_data,
       car_monthly_price := car_monthly_price car_data,
       car_total_credit := car_total_credit car_data,
       car_installments := car_installments car_data,
       car_highlights := car_highlights car_data,
       car_description := car_description car_data,
       car_is_active := car_is_active car_data\<rparr>"

definition update_car :: "db \<Rightarrow> string \<Rightarrow> Car \<Rightarrow> db \<times> (error + string)" where
  "update_car s cid car_data =
     (case bson_car car_data of
        None \<Rightarrow> (s, Inl OverflowError)
      | Some doc \<Rightarrow>
          (let (result, coll) = update_one (\<lambda>c. car_id c = cid) (set_car doc) (cars s);
               s' = s\<lparr>cars := coll\<rparr>
           in if modified_count result \<noteq> 0
              then (s', Inr ''Car updated successfully'')
              else (s', Inl (HTTPException 404 ''Car not found''))))"

definition delete_car :: "db \<Rightarrow> string \<Rightarrow> db \<times> (error + string)" where
  "delete_car s cid =
     (let (result, coll) =
            update_one (\<lambda>c. car_id c = cid) (\<lambda>c. c\<lparr>car_is_active := False\<rparr>) (cars s);
          s' = s\<lparr>cars := coll\<rparr>
      in if modified_count result \<noteq> 0
         then (s', Inr ''Car deleted successfully'')
         else (s', Inl (HTTPException 404 ''Car not found'')))"

subsection \<open>Testimonials endpoints\<close>

definition get_testimonials :: "db \<Rightarrow> Testimonial list" where
  "get_testimonials s = to_list 100 (find (\<lambda>t. tm_is_active t = True) (testimonials s))"

definition create_testimonial :: "db \<Rightarrow> Testimonial \<Rightarrow> db \<times> (error + Testimonial)" where
  "create_testimonial s testimonial_data =
     (case bson_testimonial testimonial_data of
        None \<Rightarrow> (s, Inl OverflowError)
      | Some doc \<Rightarrow>
          (let (result, coll) = insert_one doc (testimonials s);
               s' = s\<lparr>testimonials := coll\<rparr>
           in if inserted_id result \<noteq> None
              then (s', Inr testimonial_data)
              else (s', Inl (HTTPException 400 ''Failed to create testimonial''))))"

definition set_testimonial :: "Testimonial \<Rightarrow> Testimonial \<Rightarrow> Testimonial" where
  "set_testimonial testimonial_data d =
     d\<lparr>tm_id := tm_id testimonial_data,
       tm_name := tm_name testimonial_data,
       tm_city := tm_city testimonial_data,
       tm_car := tm_car testimonial_data,
       tm_image := tm_image testimonial_data,
       tm_testimonial := tm_testimonial testimonial_data,
       tm_rating := tm_rating testimonial_data,
       tm_contemplated := tm_contemplated testimonial_data,
       tm_months_to_contemplate := tm_months_to_contemplate testimonial_data,
       tm_is_active := tm_is_active testimonial_data\<rparr>"

definition update_testimonial :: "db \<Rightarrow> string \<Rightarrow> Testimonial \<Rightarrow> db \<times> (error + string)" where
  "update_testimonial s tid testimonial_data =
     (case bson_testimonial testimonial_data of
        None \<Rightarrow> (s, Inl OverflowError)
      | Some doc \<Rightarrow>
          (let (result, coll) =
                 update_one (\<lambda>t. tm_id t = tid) (set_testimonial doc) (testimonials s);
               s' = s\<lparr>testimonials := coll\<rparr>
           in if modified_count result \<noteq> 0
              then (s', Inr ''Testimonial updated successfully'')
              else (s', Inl (HTTPException 404 ''Testimonial not found''))))"

subsection \<open>Blog endpoints\<close>

definition get_blog_posts :: "db \<Rightarrow> BlogPost list" where
  "get_blog_posts s =
     to_list 100 (sort_desc bp_published_at (find (\<lambda>p. bp_is_published p = True) (blog_posts s)))"

definition get_blog_post_by_slug :: "db \<Rightarrow> string \<Rightarrow> error + BlogPost" where
  "get_blog_post_by_slug s slug =
     (case find_one (\<lambda>p. bp_slug p = slug \<and> bp_is_published p = True) (blog_posts s) of
        Some post \<Rightarrow> Inr post
      | None \<Rightarrow> Inl (HTTPException 404 ''Post not found''))"

definition create_blog_post :: "db \<Rightarrow> BlogPost \<Rightarrow> db \<times> (error + BlogPost)" where
  "create_blog_post s post_data =
     (case bson_blog_post post_data of
        None \<Rightarrow> (s, Inl OverflowError)
      | Some doc \<Rightarrow>
          (let (result, coll) = insert_one doc (blog_posts s);
               s' = s\<lparr>blog_posts := coll\<rparr>
           in if inserted_id result \<noteq> None
              then (s', Inr post_data)
              else (s', Inl (HTTPException 400 ''Failed to create blog post''))))"

definition set_blog_post :: "BlogPost \<Rightarrow> BlogPost \<Rightarrow> BlogPost" where
  "set_blog_post post_data d =
     d\<lparr>bp_id := bp_id post_data,
       bp_title := bp_title post_data,
       bp_excerpt := bp_excerpt post_data,
       bp_slug := bp_slug post_data,
       bp_category := bp_category post_data,
       bp_read_time := bp_read_time post_data,
       bp_published_at := bp_published_at post_data,
       bp_content := bp_content post_data,
       bp_is_published := bp_is_published post_data\<rparr>"

definition update_blog_post :: "db \<Rightarrow> string \<Rightarrow> BlogPost \<Rightarrow> db \<times> (error + string)" where
  "update_blog_post s pid post_data =
     (case bson_blog_post post_data of
        None \<Rightarrow> (s, Inl OverflowError)
      | Some doc \<Rightarrow>
          (let (result, coll) =
                 update_one (\<lambda>p. bp_id p = pid) (set_blog_post doc) (blog_posts s);
               s' = s\<lparr>blog_posts := coll\<rparr>
           in if modified_count result \<noteq> 0
              then (s', Inr ''Blog post updated successfully'')
              else (s', Inl (HTTPException 404 ''Blog post not found''))))"

subsection \<open>Startup seeding\<close>

text \<open>
  The three catalogues of \<open>populate_initial_data\<close>. The publication dates
  \<open>datetime(2025, 1, 15)\<close>, \<open>datetime(2025, 1, 12)\<close> and \<open>datetime(2025, 1, 10)\<close> are
  1736899200000000, 1736640000000000 and 1736467200000000 microseconds after the
  epoch. The catalogues are fixed documents with small integers and dates at midnight:
  the encoder leaves each of them as it is (\<open>seed_documents_encoded\<close> below), and
  \<open>insert_many\<close> stores them as written.
\<close>

definition initial_cars :: "Car list" where
  "initial_cars = [
    \<lparr>
      car_id = ''golf-gti-2025'',
      car_name = ''Golf GTI 2025'',
      car_model = ''Golf GTI'',
      car_year = 2025,
      car_image = ''https://images.unsplash.com/photo-1574581501439-6405a98bd76c?crop=entropy&cs=srgb&fm=jpg&ixid=M3w3NDQ2NDN8MHwxfHNlYXJjaHwxfHx2b2xrc3dhZ2VuJTIwZ29sZnxlbnwwfHx8fDE3NTMwMTkxODh8MA&ixlib=rb-4.1.0&q=85'',
      car_monthly_price = ''R$ 1.247'',
      car_total_credit = ''R$ 89.000'',
      car_installments = 60,
      car_highlights = [''Motor 2.0 TSI'', ''250cv de pot'' @ [CHR 0xC3, CHR 0xAA] @ ''ncia'', ''Tra'' @ [CHR 0xC3, CHR 0xA7, CHR 0xC3, CHR 0xA3] @ ''o dianteira''],
      car_description = ''O Golf GTI '' @ [CHR 0xC3, CHR 0xA9] @ '' a vers'' @ [CHR 0xC3, CHR 0xA3] @ ''o esportiva mais desejada do segmento premium.'',
      car_is_active = True
    \<rparr>,
    \<lparr>
      car_id = ''polo-track-2025'',
      car_name = ''Polo Track'',
      car_model = ''Polo Track'',
      car_year = 2025,
      car_image = ''https://images.unsplash.com/photo-1630485074308-ff80bde93658?crop=entropy&cs=srgb&fm=jpg&ixid=M3w3NDk1Nzd8MHwxfHNlYXJjaHwxfHx2b2xrc3dhZ2VuJTIwcG9sb3xlbnwwfHx8fDE3NTMwMTkxOTV8MA&ixlib=rb-4.1.0&q=85'',
      car_monthly_price = ''R$ 847'',
      car_total_credit = ''R$ 65.000'',
      car_installments = 60,
      car_highlights = [''Motor 1.0 TSI'', ''Design arrojado'', ''Tecnologia avan'' @ [CHR 0xC3, CHR 0xA7] @ ''ada''],
      car_description = ''O Polo Track combina esportividade e economia para o dia a dia.'',
      car_is_active = True
    \<rparr>,
    \<lparr>
      car_id = ''t-cross-2025'',
      car_name = ''T-Cross'',
      car_model = ''T-Cross'',
      car_year = 2025,
      car_image = ''https://images.unsplash.com/photo-1692377789658-e37e26cc2db7?crop=entropy&cs=srgb&fm=jpg&ixid=M3w3NTY2Njl8MHwxfHNlYXJjaHwyfHx2b2xrc3dhZ2VuJTIwc3V2fGVufDB8fHx8MTc1MzAxOTIwMnww&ixlib=rb-4.1.0&q=85'',
      car_monthly_price = ''R$ 987'',
      car_total_credit = ''R$ 78.000'',
      car_installments = 60,
      car_highlights = [''SUV compacto'', ''Espa'' @ [CHR 0xC3, CHR 0xA7] @ ''o interno'', ''Posi'' @ [CHR 0xC3, CHR 0xA7, CHR 0xC3, CHR 0xA3] @ ''o elevada''],
      car_description = ''O T-Cross '' @ [CHR 0xC3, CHR 0xA9] @ '' o SUV perfeito para quem busca versatilidade e conforto.'',
      car_is_active = True
    \<rparr>,
    \<lparr>
      car_id = ''nivus-2025'',
      car_name = ''Nivus'',
      car_model = ''Nivus'',
      car_year = 2025,
      car_image = ''https://images.unsplash.com/photo-1705229810194-dd78431dcb78?crop=entropy&cs=srgb&fm=jpg&ixid=M3w3NTY2Njl8MHwxfHNlYXJjaHwzfHx2b2xrc3dhZ2VuJTIwc3V2fGVufDB8fHx8MTc1MzAxOTIwMnww&ixlib=rb-4.1.0&q=85'',
      car_monthly_price = ''R$ 897'',
      car_total_credit = ''R$ 72.000'',
      car_installments = 60,
      car_highlights = [''SUV Coup'' @ [CHR 0xC3, CHR 0xA9], ''Design '' @ [CHR 0xC3, CHR 0xBA] @ ''nico'', ''Efici'' @ [CHR 0xC3, CHR 0xAA] @ ''ncia energ'' @ [CHR 0xC3, CHR 0xA9] @ ''tica''],
      car_description = ''O Nivus representa a nova era dos SUVs coup'' @ [CHR 0xC3, CHR 0xA9] @ '' da Volkswagen.'',
      car_is_active = True
    \<rparr>
  ]"

definition initial_testimonials :: "Testimonial list" where
  "initial_testimonials = [
    \<lparr>
      tm_id = ''testimonial-1'',
      tm_name = ''Maria Silva'',
      tm_city = ''Bel'' @ [CHR 0xC3, CHR 0xA9] @ ''m, PA'',
      tm_car = ''T-Cross 2024'',
      tm_image = ''https://images.unsplash.com/photo-1494790108755-2616c6d58a37?crop=entropy&cs=srgb&fm=jpg&ixid=M3w3NDQ2NDN8MHwxfHNlYXJjaHwyNHx8cGVyc29uJTIwcG9ydHJhaXR8ZW58MHx8fHwxNzUzMDE5MjA2fDA&ixlib=rb-4.1.0&q=85'',
      tm_testimonial = ''Achei que era imposs'' @ [CHR 0xC3, CHR 0xAD] @ ''vel ter meu carro sem entrada... hoje tenho meu T-Cross sem pagar juros! O Ismael me ajudou em todo o processo.'',
      tm_rating = 5,
      tm_contemplated = True,
      tm_months_to_contemplate = 8,
      tm_is_active = True
    \<rparr>,
    \<lparr>
      tm_id = ''testimonial-2'',
      tm_name = ''Jo'' @ [CHR 0xC3, CHR 0xA3] @ ''o Santos'',
      tm_city = ''Ananindeua, PA'',
      tm_car = ''Golf GTI 2024'',
      tm_image = ''https://images.unsplash.com/photo-1472099645785-5658abf4ff4e?crop=entropy&cs=srgb&fm=jpg&ixid=M3w3NDQ2NDN8MHwxfHNlYXJjaHwxN3x8cGVyc29uJTIwcG9ydHJhaXR8ZW58MHx8fHwxNzUzMDE5MjA2fDA&ixlib=rb-4.1.0&q=85'',
      tm_testimonial = ''Sempre sonhei com um Golf GTI. Com o cons'' @ [CHR 0xC3, CHR 0xB3] @ ''rcio consegui realizar esse sonho sem comprometer minha renda. Recomendo!'',
      tm_rating = 5,
      tm_contemplated = True,
      tm_months_to_contemplate = 12,
      tm_is_active = True
    \<rparr>,
    \<lparr>
      tm_id = ''testimonial-3'',
      tm_name = ''Ana Oliveira'',
      tm_city = ''Castanhal, PA'',
      tm_car = ''Polo Track 2024'',
      tm_image = ''https://images.unsplash.com/photo-1438761681033-6461ffad8d80?crop=entropy&cs=srgb&fm=jpg&ixid=M3w3NDQ2NDN8MHwxfHNlYXJjaHwyNnx8cGVyc29uJTIwcG9ydHJhaXR8ZW58MHx8fHwxNzUzMDE5MjA2fDA&ixlib=rb-4.1.0&q=85'',
      tm_testimonial = ''Excelente atendimento! Consegui meu Polo Track em apenas 6 meses. O processo foi super transparente e sem pegadinhas.'',
      tm_rating = 5,
      tm_contemplated = True,
      tm_months_to_contemplate = 6,
      tm_is_active = True
    \<rparr>
  ]"

definition initial_blog_posts :: "BlogPost list" where
  "initial_blog_posts = [
    \<lparr>
      bp_id = ''blog-1'',
      bp_title = ''5 motivos para escolher cons'' @ [CHR 0xC3, CHR 0xB3] @ ''rcio em vez de financiamento'',
      bp_excerpt = ''Descubra por que o cons'' @ [CHR 0xC3, CHR 0xB3] @ ''rcio '' @ [CHR 0xC3, CHR 0xA9] @ '' uma op'' @ [CHR 0xC3, CHR 0xA7, CHR 0xC3, CHR 0xA3] @ ''o mais inteligente que o financiamento tradicional...'',
      bp_slug = ''consorcio-vs-financiamento'',
      bp_category = ''Educativo'',
      bp_read_time = ''5 min'',
      bp_published_at = 1736899200000000,
      bp_content = ''Conte'' @ [CHR 0xC3, CHR 0xBA] @ ''do completo do artigo sobre cons'' @ [CHR 0xC3, CHR 0xB3] @ ''rcio vs financiamento...'',
      bp_is_published = True
    \<rparr>,
    \<lparr>
      bp_id = ''blog-2'',
      bp_title = ''Como ser contemplado mais r'' @ [CHR 0xC3, CHR 0xA1] @ ''pido no cons'' @ [CHR 0xC3, CHR 0xB3] @ ''rcio'',
      bp_excerpt = ''Estrat'' @ [CHR 0xC3, CHR 0xA9] @ ''gias comprovadas para aumentar suas chances de contempla'' @ [CHR 0xC3, CHR 0xA7, CHR 0xC3, CHR 0xA3] @ ''o antecipada...'',
      bp_slug = ''contemplacao-rapida-consorcio'',
      bp_category = ''Dicas'',
      bp_read_time = ''7 min'',
      bp_published_at = 1736640000000000,
      bp_content = ''Conte'' @ [CHR 0xC3, CHR 0xBA] @ ''do completo sobre contempla'' @ [CHR 0xC3, CHR 0xA7, CHR 0xC3, CHR 0xA3] @ ''o r'' @ [CHR 0xC3, CHR 0xA1] @ ''pida...'',
      bp_is_published = True
    \<rparr>,
    \<lparr>
      bp_id = ''blog-3'',
      bp_title = ''Diferen'' @ [CHR 0xC3, CHR 0xA7] @ ''a entre carta de cr'' @ [CHR 0xC3, CHR 0xA9] @ ''dito e financiamento'',
      bp_excerpt = ''Entenda as principais diferen'' @ [CHR 0xC3, CHR 0xA7] @ ''as e qual op'' @ [CHR 0xC3, CHR 0xA7, CHR 0xC3, CHR 0xA3] @ ''o '' @ [CHR 0xC3, CHR 0xA9] @ '' melhor para seu perfil...'',
      bp_slug = ''carta-credito-vs-financiamento'',
      bp_category = ''Comparativo'',
      bp_read_time = ''4 min'',
      bp_published_at = 1736467200000000,
      bp_content = ''Conte'' @ [CHR 0xC3, CHR 0xBA] @ ''do completo sobre carta de cr'' @ [CHR 0xC3, CHR 0xA9] @ ''dito vs financiamento...'',
      bp_is_published = True
    \<rparr>
  ]"
definition populate_initial_data :: "db \<Rightarrow> db" where
  "populate_initial_data s =
     s\<lparr>cars := insert_many initial_cars (cars s),
       testimonials := insert_many initial_testimonials (testimonials s),
       blog_posts := insert_many initial_blog_posts (blog_posts s)\<rparr>"

definition startup_event :: "db \<Rightarrow> db" where
  "startup_event s =
     (let cars_count = count_documents (\<lambda>_. True) (cars s)
      in if cars_count = 0 then populate_initial_data s else s)"

subsection \<open>The state-changing operations as requests\<close>

text \<open>
  The requests that write to the four collections, and a service start. \<open>handle\<close>
  gives the database after one of them, \<open>run\<close> after a sequence. The handlers that only
  read, and those that write other collections (status checks, page views, form
  interactions), leave these four collections as they are.
\<close>

datatype request =
    is_CreateLead: CreateLead string datetime LeadCreate
  | UpdateLeadStatus string string
  | CreateCar Car
  | UpdateCar string Car
  | DeleteCar string
  | CreateTestimonial Testimonial
  | UpdateTestimonial string Testimonial
  | CreateBlogPost BlogPost
  | UpdateBlogPost string BlogPost
  | Startup

fun handle :: "db \<Rightarrow> request \<Rightarrow> db" where
  "handle s (CreateLead uid now lead_data) = fst (create_lead s uid now lead_data)"
| "handle s (UpdateLeadStatus lid status) = fst (update_lead_status s lid status)"
| "handle s (CreateCar car_data) = fst (create_car s car_data)"
| "handle s (UpdateCar cid car_data) = fst (update_car s cid car_data)"
| "handle s (DeleteCar cid) = fst (delete_car s cid)"
| "handle s (CreateTestimonial testimonial_data) = fst (create_testimonial s testimonial_data)"
| "handle s (UpdateTestimonial tid testimonial_data) =
     fst (update_testimonial s tid testimonial_data)"
| "handle s (CreateBlogPost post_data) = fst (create_blog_post s post_data)"
| "handle s (UpdateBlogPost pid post_data) = fst (update_blog_post s pid post_data)"
| "handle s Startup = startup_event s"

definition run :: "db \<Rightarrow> request list \<Rightarrow> db" where
  "run s rs = foldl handle s rs"

text \<open>
  The ids of each collection are pairwise different.
\<close>

definition unique_ids :: "db \<Rightarrow> bool" where
  "unique_ids s \<longleftrightarrow>
     distinct (map lead_id (leads s)) \<and>
     distinct (map car_id (cars s)) \<and>
     distinct (map tm_id (testimonials s)) \<and>
     distinct (map bp_id (blog_posts s))"

text \<open>
  A request brings no id that its collection already holds: the uuid drawn for a lead
  is new, a created document has a new id, the payload of an update carries the id
  it is addressed to or a new one, and a startup that seeds finds none of the seeded
  testimonial and blog post ids in place.
\<close>

fun brings_new_id :: "db \<Rightarrow> request \<Rightarrow> bool" where
  "brings_new_id s (CreateLead uid now lead_data) = (uid \<notin> set (map lead_id (leads s)))"
| "brings_new_id s (CreateCar car_data) = (car_id car_data \<notin> set (map car_id (cars s)))"
| "brings_new_id s (UpdateCar cid car_data) =
     (car_id car_data = cid \<or> car_id car_data \<notin> set (map car_id (cars s)))"
| "brings_new_id s (CreateTestimonial testimonial_data) =
     (tm_id testimonial_data \<notin> set (map tm_id (testimonials s)))"
| "brings_new_id s (UpdateTestimonial tid testimonial_data) =
     (tm_id testimonial_data = tid \<or> tm_id testimonial_data \<notin> set (map tm_id (testimonials s)))"
| "brings_new_id s (CreateBlogPost post_data) =
     (bp_id post_data \<notin> set (map bp_id (blog_posts s)))"
| "brings_new_id s (UpdateBlogPost pid post_data) =
     (bp_id post_data = pid \<or> bp_id post_data \<notin> set (map bp_id (blog_posts s)))"
| "brings_new_id s (UpdateLeadStatus lid status) = True"
| "brings_new_id s (DeleteCar cid) = True"
| "brings_new_id s Startup =
     (cars s \<noteq> [] \<or>
      (set (map tm_id initial_testimonials) \<inter> set (map tm_id (testimonials s)) = {} \<and>
       set (map bp_id initial_blog_posts) \<inter> set (map bp_id (blog_posts s)) = {}))"

fun new_ids_throughout :: "db \<Rightarrow> request list \<Rightarrow> bool" where
  "new_ids_throughout s [] = True"
| "new_ids_throughout s (r # rs) = (brings_new_id s r \<and> new_ids_throughout (handle s r) rs)"

subsection \<open>Sample requests\<close>

text \<open>
  The submission of the backend test, and a family of lead creations: the \<open>i\<close>-th has
  its own uuid and source, and the clock reads \<open>i\<close> milliseconds.
\<close>

definition test_submission :: LeadCreate where
  "test_submission =
     \<lparr>lc_name = ''Carlos Eduardo Silva'',
      lc_whatsapp = ''(91) 99876-5432'',
      lc_city = ''Bel'' @ [CHR 0xC3, CHR 0xA9] @ ''m'',
      lc_model = ''Golf GTI'',
      lc_source = ''hero-form''\<rparr>"

definition uuid_no :: "nat \<Rightarrow> string" where
  "uuid_no i = ''lead-'' @ replicate i (CHR ''i'')"

definition source_no :: "nat \<Rightarrow> string" where
  "source_no i = ''form-'' @ replicate i (CHR ''i'')"

definition lead_request :: "nat \<Rightarrow> request" where
  "lead_request i =
     CreateLead (uuid_no i) (int i * 1000) (test_submission\<lparr>lc_source := source_no i\<rparr>)"

definition lead_requests :: "nat \<Rightarrow> request list" where
  "lead_requests n = map lead_request [0..<n]"


section \<open>Facts about the store operations\<close>

lemma update_one_no_match:
  "\<forall>d\<in>set ds. \<not> flt d \<Longrightarrow>
     update_one flt upd ds = (\<lparr>matched_count = 0, modified_count = 0\<rparr>, ds)"
  by (induction ds) simp_all

lemma update_one_first_match:
  "\<exists>d\<in>set ds. flt d \<Longrightarrow>
   \<exists>i<length ds. flt (ds ! i) \<and> (\<forall>j<i. \<not> flt (ds ! j)) \<and>
      update_one flt upd ds =
        (\<lparr>matched_count = 1, modified_count = (if upd (ds ! i) = ds ! i then 0 else 1)\<rparr>,
         ds[i := upd (ds ! i)])"
proof (induction ds)
  case Nil
  then show ?case by simp
next
  case (Cons d ds)
  show ?case
  proof (cases "flt d")
    case True
    then have "flt ((d # ds) ! 0) \<and> (\<forall>j<0. \<not> flt ((d # ds) ! j)) \<and>
      update_one flt upd (d # ds) =
        (\<lparr>matched_count = 1,
          modified_count = (if upd ((d # ds) ! 0) = (d # ds) ! 0 then 0 else 1)\<rparr>,
         (d # ds)[0 := upd ((d # ds) ! 0)])"
      by simp
    then show ?thesis by (intro exI[of _ 0]) simp
  next
    case False
    with Cons.prems have "\<exists>d\<in>set ds. flt d" by auto
    from Cons.IH[OF this] obtain i where i: "i < length ds" "flt (ds ! i)"
      "\<forall>j<i. \<not> flt (ds ! j)"
      "update_one flt upd ds =
        (\<lparr>matched_count = 1, modified_count = (if upd (ds ! i) = ds ! i then 0 else 1)\<rparr>,
         ds[i := upd (ds ! i)])" by blast
    have "\<forall>j<Suc i. \<not> flt ((d # ds) ! j)"
      using False i(3) by (auto simp: less_Suc_eq_0_disj)
    with i False show ?thesis
      by (intro exI[of _ "Suc i"]) simp
  qed
qed

lemma length_update_one: "length (snd (update_one flt upd ds)) = length ds"
  by (induction ds) simp_all

lemma update_one_Nil_iff: "snd (update_one flt upd ds) = [] \<longleftrightarrow> ds = []"
  using length_update_one[of flt upd ds] by (metis length_0_conv)

lemma set_car_payload: "set_car car_data d = car_data"
  by (cases d, cases car_data) (simp add: set_car_def)

lemma set_testimonial_payload: "set_testimonial testimonial_data d = testimonial_data"
  by (cases d, cases testimonial_data) (simp add: set_testimonial_def)

lemma set_blog_post_payload: "set_blog_post post_data d = post_data"
  by (cases d, cases post_data) (simp add: set_blog_post_def)

lemma bson_datetime_ms: "bson_datetime (k * 1000) = k * 1000"
  by (simp add: bson_datetime_def)

lemma create_lead_eq:
  "create_lead s uid now lead_data =
     (s\<lparr>leads := leads s @ [Lead_of uid (bson_datetime now) lead_data]\<rparr>,
      Inr (Lead_of uid now lead_data))"
  by (simp add: create_lead_def bson_lead_def insert_one_def Lead_of_def Let_def)

lemma seed_documents_encoded:
  "map bson_car initial_cars = map Some initial_cars \<and>
   map bson_testimonial initial_testimonials = map Some initial_testimonials \<and>
   map bson_blog_post initial_blog_posts = map Some initial_blog_posts"
  by (simp add: initial_cars_def initial_testimonials_def initial_blog_posts_def
      bson_car_def bson_testimonial_def bson_blog_post_def bson_int_ok_def bson_datetime_def)

lemma startup_event_eq:
  "startup_event s = (if cars s = [] then populate_initial_data s else s)"
  by (simp add: startup_event_def count_documents_def)

lemma cars_populate: "cars (populate_initial_data s) \<noteq> []"
  by (simp add: populate_initial_data_def insert_many_def initial_cars_def)

lemma cars_startup: "cars (startup_event s) \<noteq> []"
  by (simp add: startup_event_eq cars_populate)

lemma cars_handle: "cars s \<noteq> [] \<Longrightarrow> cars (handle s r) \<noteq> []"
  by (cases r)
     (simp_all add: create_lead_eq update_lead_status_def create_car_def update_car_def
        delete_car_def create_testimonial_def update_testimonial_def create_blog_post_def
        update_blog_post_def insert_one_def startup_event_eq update_one_Nil_iff
        split_beta Let_def split: option.splits)

lemma cars_run: "cars s \<noteq> [] \<Longrightarrow> cars (run s rs) \<noteq> []"
  unfolding run_def by (induction rs arbitrary: s) (simp_all add: cars_handle)

lemma map_update_one_same:
  "(\<And>d. f (upd d) = f d) \<Longrightarrow> map f (snd (update_one flt upd ds)) = map f ds"
  by (induction ds) simp_all

lemma distinct_update_one_replace:
  assumes "distinct (map f ds)" and "f p = k \<or> f p \<notin> set (map f ds)"
  shows "distinct (map f (snd (update_one (\<lambda>d. f d = k) (\<lambda>_. p) ds)))"
proof (cases "\<exists>d\<in>set ds. f d = k")
  case False
  then have "\<forall>d\<in>set ds. \<not> f d = k" by blast
  from update_one_no_match[OF this] assms(1) show ?thesis by simp
next
  case True
  from update_one_first_match[OF True, of "\<lambda>_. p"] obtain i where
    i: "i < length ds" "f (ds ! i) = k"
    and eq: "snd (update_one (\<lambda>d. f d = k) (\<lambda>_. p) ds) = ds[i := p]"
    by auto
  have "f p \<notin> set (map f ds) - {map f ds ! i}"
    using assms(2) i by auto
  with assms(1) have "distinct ((map f ds)[i := f p])"
    by (rule distinct_list_update)
  then show ?thesis by (simp add: eq map_update)
qed

lemma set_car_const: "set_car car_data = (\<lambda>_. car_data)"
  by (rule ext) (rule set_car_payload)

lemma set_testimonial_const: "set_testimonial testimonial_data = (\<lambda>_. testimonial_data)"
  by (rule ext) (rule set_testimonial_payload)

lemma set_blog_post_const: "set_blog_post post_data = (\<lambda>_. post_data)"
  by (rule ext) (rule set_blog_post_payload)



lemma update_car_overflow:
  "\<not> (bson_int_ok (car_year car_data) \<and> bson_int_ok (car_installments car_data)) \<Longrightarrow>
     update_car s cid car_data = (s, Inl OverflowError)"
  by (auto simp: update_car_def bson_car_def)

lemma update_car_encoded:
  "bson_int_ok (car_year car_data) \<and> bson_int_ok (car_installments car_data) \<Longrightarrow>
     update_car s cid car_data =
       (s\<lparr>cars := snd (update_one (\<lambda>c. car_id c = cid) (\<lambda>_. car_data) (cars s))\<rparr>,
        if modified_count (fst (update_one (\<lambda>c. car_id c = cid) (\<lambda>_. car_data) (cars s))) \<noteq> 0
        then Inr ''Car updated successfully''
        else Inl (HTTPException 404 ''Car not found''))"
  by (simp add: update_car_def bson_car_def set_car_const split_beta Let_def)



lemma update_testimonial_overflow:
  "\<not> (bson_int_ok (tm_rating testimonial_data) \<and>
       bson_int_ok (tm_months_to_contemplate testimonial_data)) \<Longrightarrow>
     update_testimonial s tid testimonial_data = (s, Inl OverflowError)"
  by (auto simp: update_testimonial_def bson_testimonial_def)

lemma update_testimonial_encoded:
  "bson_int_ok (tm_rating testimonial_data) \<and>
   bson_int_ok (tm_months_to_contemplate testimonial_data) \<Longrightarrow>
     update_testimonial s tid testimonial_data =
       (s\<lparr>testimonials :=
            snd (update_one (\<lambda>t. tm_id t = tid) (\<lambda>_. testimonial_data) (testimonials s))\<rparr>,
        if modified_count
             (fst (update_one (\<lambda>t. tm_id t = tid) (\<lambda>_. testimonial_data) (testimonials s))) \<noteq> 0
        then Inr ''Testimonial updated successfully''
        else Inl (HTTPException 404 ''Testimonial not found''))"
  by (simp add: update_testimonial_def bson_testimonial_def set_testimonial_const split_beta
      Let_def)



lemma update_blog_post_encoded:
  "update_blog_post s pid post_data =
     (s\<lparr>blog_posts :=
          snd (update_one (\<lambda>p. bp_id p = pid)
                 (\<lambda>_. post_data\<lparr>bp_published_at := bp_published_at post_data div 1000 * 1000\<rparr>)
                 (blog_posts s))\<rparr>,
      if modified_count
           (fst (update_one (\<lambda>p. bp_id p = pid)
                   (\<lambda>_. post_data\<lparr>bp_published_at := bp_published_at post_data div 1000 * 1000\<rparr>)
                   (blog_posts s))) \<noteq> 0
      then Inr ''Blog post updated successfully''
      else Inl (HTTPException 404 ''Blog post not found''))"
  by (simp add: update_blog_post_def bson_blog_post_def bson_datetime_def set_blog_post_const
      split_beta Let_def)



lemma seed_ids:
  "map car_id initial_cars =
     [''golf-gti-2025'', ''polo-track-2025'', ''t-cross-2025'', ''nivus-2025'']"
  "map tm_id initial_testimonials = [''testimonial-1'', ''testimonial-2'', ''testimonial-3'']"
  "map bp_id initial_blog_posts = [''blog-1'', ''blog-2'', ''blog-3'']"
  by (simp_all add: initial_cars_def initial_testimonials_def initial_blog_posts_def)

lemma seeded_db:
  "startup_event empty_db =
     \<lparr>leads = [], cars = initial_cars, testimonials = initial_testimonials,
      blog_posts = initial_blog_posts\<rparr>"
  by (simp add: startup_event_eq empty_db_def populate_initial_data_def insert_many_def)

lemma unique_ids_populate:
  assumes "unique_ids s" "cars s = []"
    "set (map tm_id initial_testimonials) \<inter> set (map tm_id (testimonials s)) = {}"
    "set (map bp_id initial_blog_posts) \<inter> set (map bp_id (blog_posts s)) = {}"
  shows "unique_ids (populate_initial_data s)"
proof -
  have "distinct (map car_id initial_cars)" "distinct (map tm_id initial_testimonials)"
    "distinct (map bp_id initial_blog_posts)"
    unfolding seed_ids by simp_all
  with assms show ?thesis
    unfolding unique_ids_def populate_initial_data_def insert_many_def
    by (simp add: Int_commute)
qed

lemma unique_ids_handle:
  assumes "unique_ids s" "brings_new_id s r"
  shows "unique_ids (handle s r)"
proof (cases r)
  case (CreateLead uid now lead_data)
  with assms show ?thesis
    by (simp add: unique_ids_def create_lead_eq Lead_of_def)
next
  case (UpdateLeadStatus lid status)
  have "map lead_id (snd (update_one (\<lambda>l. lead_id l = lid)
      (\<lambda>l. l\<lparr>lead_status := status\<rparr>) (leads s))) = map lead_id (leads s)"
    by (rule map_update_one_same) simp
  with assms UpdateLeadStatus show ?thesis
    by (simp add: unique_ids_def update_lead_status_def split_beta Let_def)
next
  case (CreateCar car_data)
  with assms show ?thesis
    by (simp add: unique_ids_def create_car_def bson_car_def insert_one_def Let_def)
next
  case (UpdateCar cid car_data)
  show ?thesis
  proof (cases "bson_int_ok (car_year car_data) \<and> bson_int_ok (car_installments car_data)")
    case False
    with assms(1) UpdateCar show ?thesis by (simp add: update_car_overflow)
  next
    case True
    from assms UpdateCar have "distinct (map car_id (cars s))"
      "car_id car_data = cid \<or> car_id car_data \<notin> set (map car_id (cars s))"
      by (simp_all add: unique_ids_def)
    from distinct_update_one_replace[OF this] assms(1) UpdateCar show ?thesis
      by (simp add: unique_ids_def update_car_encoded[OF True])
  qed
next
  case (DeleteCar cid)
  have "map car_id (snd (update_one (\<lambda>c. car_id c = cid)
      (\<lambda>c. c\<lparr>car_is_active := False\<rparr>) (cars s))) = map car_id (cars s)"
    by (rule map_update_one_same) simp
  with assms DeleteCar show ?thesis
    by (simp add: unique_ids_def delete_car_def split_beta Let_def)
next
  case (CreateTestimonial testimonial_data)
  with assms show ?thesis
    by (simp add: unique_ids_def create_testimonial_def bson_testimonial_def insert_one_def
        Let_def)
next
  case (UpdateTestimonial tid testimonial_data)
  show ?thesis
  proof (cases "bson_int_ok (tm_rating testimonial_data) \<and>
      bson_int_ok (tm_months_to_contemplate testimonial_data)")
    case False
    with assms(1) UpdateTestimonial show ?thesis by (simp add: update_testimonial_overflow)
  next
    case True
    from assms UpdateTestimonial have "distinct (map tm_id (testimonials s))"
      "tm_id testimonial_data = tid \<or>
       tm_id testimonial_data \<notin> set (map tm_id (testimonials s))"
      by (simp_all add: unique_ids_def)
    from distinct_update_one_replace[OF this] assms(1) UpdateTestimonial show ?thesis
      by (simp add: unique_ids_def update_testimonial_encoded[OF True])
  qed
next
  case (CreateBlogPost post_data)
  with assms show ?thesis
    by (simp add: unique_ids_def create_blog_post_def bson_blog_post_def insert_one_def
        Let_def)
next
  case (UpdateBlogPost pid post_data)
  let ?doc = "post_data\<lparr>bp_published_at := bp_published_at post_data div 1000 * 1000\<rparr>"
  from assms UpdateBlogPost have "distinct (map bp_id (blog_posts s))"
    "bp_id ?doc = pid \<or> bp_id ?doc \<notin> set (map bp_id (blog_posts s))"
    by (simp_all add: unique_ids_def)
  from distinct_update_one_replace[OF this] assms(1) UpdateBlogPost show ?thesis
    by (simp add: unique_ids_def update_blog_post_encoded)
next
  case Startup
  show ?thesis
  proof (cases "cars s = []")
    case True
    with assms Startup show ?thesis
      by (simp add: startup_event_eq unique_ids_populate)
  next
    case False
    with assms Startup show ?thesis by (simp add: startup_event_eq)
  qed
qed

subsection \<open>Listing, counting and grouping\<close>

lemma get_leads_length: "length (get_leads s) = min 1000 (length (leads s))"
  by (simp add: get_leads_def to_list_def find_def sort_desc_def min.commute)

lemma leads_run_lead_requests:
  "leads (run s (map lead_request ns)) =
     leads s @ map (\<lambda>i. Lead_of (uuid_no i) (int i * 1000)
                          (test_submission\<lparr>lc_source := source_no i\<rparr>)) ns"
  unfolding run_def
  by (induction ns arbitrary: s)
     (simp_all add: lead_request_def create_lead_eq bson_datetime_ms)

lemma leads_sample:
  "leads (run empty_db (lead_requests n)) =
     map (\<lambda>i. Lead_of (uuid_no i) (int i * 1000)
                  (test_submission\<lparr>lc_source := source_no i\<rparr>)) [0..<n]"
  by (simp add: lead_requests_def leads_run_lead_requests empty_db_def)

lemma insort_key_last:
  "\<forall>y\<in>set ys. f y < f x \<Longrightarrow> insort_key f x ys = ys @ [x]"
  by (induction ys) auto

lemma sort_desc_ascending:
  "sorted_wrt (\<lambda>a b. key a < key b) xs \<Longrightarrow> sort_desc key xs = rev xs"
  unfolding sort_desc_def
  by (induction xs) (auto simp: insort_key_last)

lemma uuid_no_inj: "uuid_no i = uuid_no j \<longleftrightarrow> i = j"
proof
  assume "uuid_no i = uuid_no j"
  then have "length (uuid_no i) = length (uuid_no j)" by simp
  then show "i = j" by (simp add: uuid_no_def)
qed simp

lemma oldest_lead_dropped:
  assumes "1000 \<le> n"
  shows "uuid_no 0 \<in> set (map lead_id (leads (run empty_db (lead_requests (Suc n))))) \<and>
   snd (update_lead_status (run empty_db (lead_requests (Suc n))) (uuid_no 0) ''archived'') =
     Inr ''Lead updated successfully'' \<and>
   uuid_no 0 \<notin> set (map lead_id (get_leads
     (fst (update_lead_status (run empty_db (lead_requests (Suc n))) (uuid_no 0) ''archived''))))"
proof -
  define mk where "mk = (\<lambda>i. Lead_of (uuid_no i) (int i * 1000)
      (test_submission\<lparr>lc_source := source_no i\<rparr>))"
  define S where "S = run empty_db (lead_requests (Suc n))"
  define l0 where "l0 = (mk 0)\<lparr>lead_status := ''archived''\<rparr>"
  define rest where "rest = map mk [Suc 0..<Suc n]"
  have mk_simps: "lead_id (mk i) = uuid_no i" "lead_created_at (mk i) = int i * 1000"
    "lead_status (mk i) = ''new''" for i
    by (simp_all add: mk_def Lead_of_def)
  have leads: "leads S = mk 0 # rest"
    unfolding S_def rest_def leads_sample mk_def[symmetric]
    by (simp add: upt_conv_Cons del: upt_Suc)
  have "mk 0\<lparr>lead_status := ''archived''\<rparr> \<noteq> mk 0"
  proof
    assume "mk 0\<lparr>lead_status := ''archived''\<rparr> = mk 0"
    then have "lead_status (mk 0\<lparr>lead_status := ''archived''\<rparr>) = lead_status (mk 0)" by simp
    then show False by (simp add: mk_simps)
  qed
  then have upd: "update_lead_status S (uuid_no 0) ''archived'' =
      (S\<lparr>leads := l0 # rest\<rparr>, Inr ''Lead updated successfully'')"
    by (simp add: update_lead_status_def leads mk_simps l0_def)
  have asc: "sorted_wrt (\<lambda>a b. lead_created_at a < lead_created_at b) (l0 # rest)"
    by (auto simp: rest_def l0_def sorted_wrt_map mk_simps simp del: upt_Suc)
  have len: "length rest = n" by (simp add: rest_def del: upt_Suc)
  have "get_leads (S\<lparr>leads := l0 # rest\<rparr>) = take 1000 (rev rest @ [l0])"
    by (simp add: get_leads_def to_list_def find_def sort_desc_ascending[OF asc])
  also have "\<dots> = take 1000 (rev rest)"
    using assms len by simp
  finally have "set (get_leads (S\<lparr>leads := l0 # rest\<rparr>)) \<subseteq> set rest"
    using set_take_subset[of 1000 "rev rest"] by simp
  then have "set (map lead_id (get_leads (S\<lparr>leads := l0 # rest\<rparr>))) \<subseteq> uuid_no ` {Suc 0..<Suc n}"
    by (auto simp: rest_def mk_simps simp del: upt_Suc)
  moreover have "uuid_no 0 \<notin> uuid_no ` {Suc 0..<Suc n}"
    by (auto simp: uuid_no_inj simp del: upt_Suc)
  moreover have "uuid_no 0 \<in> set (map lead_id (leads S))"
    by (simp add: leads mk_simps)
  ultimately show ?thesis
    unfolding S_def[symmetric] by (auto simp: upd)
qed

lemma alist_update_new:
  "k \<notin> fst ` set m \<Longrightarrow> AList.update k v m = m @ [(k, v)]"
  by (induction m) auto

lemma dict_of_acc:
  "distinct (map fst (m @ kvs)) \<Longrightarrow>
     foldl (\<lambda>m kv. AList.update (fst kv) (snd kv) m) m kvs = m @ kvs"
proof (induction kvs arbitrary: m)
  case Nil
  then show ?case by simp
next
  case (Cons kv kvs)
  from Cons.prems have new: "fst kv \<notin> fst ` set m" by auto
  from Cons.prems have "distinct (map fst ((m @ [kv]) @ kvs))" by simp
  from Cons.IH[OF this] show ?case
    by (simp add: alist_update_new[OF new])
qed

lemma dict_of_distinct: "distinct (map fst kvs) \<Longrightarrow> dict_of kvs = kvs"
  unfolding dict_of_def using dict_of_acc[of "[]" kvs] by simp

lemma group_count_keys: "map fst (group_count key coll) = remdups (map key coll)"
  by (simp add: group_count_def comp_def)

lemma group_count_sum: "sum_list (map snd (group_count key coll)) = length coll"
proof -
  have "sum_list (map snd (group_count key coll)) =
      sum_list (map (count_list (map key coll)) (remdups (map key coll)))"
    by (simp add: group_count_def comp_def)
  also have "\<dots> = sum (count_list (map key coll)) (set (map key coll))"
    by (simp add: sum_list_distinct_conv_sum_set)
  also have "\<dots> = length (map key coll)"
    by (rule sum_count_set) simp_all
  finally show ?thesis by simp
qed

lemma sum_list_take_le: "sum_list (take n (xs :: nat list)) \<le> sum_list xs"
proof -
  have "sum_list (take n xs @ drop n xs) = sum_list (take n xs) + sum_list (drop n xs)"
    by (rule sum_list_append)
  then show ?thesis by simp
qed

lemma by_source_eq:
  "by_source (get_lead_stats s) = take 100 (group_count lead_source (leads s))"
proof -
  have "distinct (map fst (take 100 (group_count lead_source (leads s))))"
    by (simp add: take_map[symmetric] group_count_keys distinct_take)
  then show ?thesis
    by (simp add: get_lead_stats_def to_list_def dict_of_distinct Let_def)
qed

lemma by_source_sum_le:
  "sum_list (map snd (by_source (get_lead_stats s))) \<le> length (leads s)"
  using sum_list_take_le[of 100 "map snd (group_count lead_source (leads s))"]
  by (simp add: by_source_eq take_map group_count_sum)

lemma by_source_sum:
  assumes "card (lead_source ` set (leads s)) \<le> 100"
  shows "sum_list (map snd (by_source (get_lead_stats s))) = length (leads s)"
proof -
  have "length (group_count lead_source (leads s)) = card (set (map lead_source (leads s)))"
    by (simp add: group_count_def length_remdups_card_conv)
  with assms have "length (group_count lead_source (leads s)) \<le> 100" by simp
  then show ?thesis by (simp add: by_source_eq group_count_sum)
qed

lemma status_counts_le:
  "length (filter (\<lambda>l. lead_status l = ''new'') ls) +
   length (filter (\<lambda>l. lead_status l = ''contacted'') ls) +
   length (filter (\<lambda>l. lead_status l = ''converted'') ls) \<le> length ls"
  by (induction ls) auto

lemma status_counts_eq:
  "(\<forall>l\<in>set ls. lead_status l = ''new'' \<or> lead_status l = ''contacted'' \<or>
      lead_status l = ''converted'') \<Longrightarrow>
   length (filter (\<lambda>l. lead_status l = ''new'') ls) +
   length (filter (\<lambda>l. lead_status l = ''contacted'') ls) +
   length (filter (\<lambda>l. lead_status l = ''converted'') ls) = length ls"
  by (induction ls) auto

lemma stats_fields:
  "total (get_lead_stats s) = length (leads s)"
  "new (get_lead_stats s) = length (filter (\<lambda>l. lead_status l = ''new'') (leads s))"
  "contacted (get_lead_stats s) = length (filter (\<lambda>l. lead_status l = ''contacted'') (leads s))"
  "converted (get_lead_stats s) = length (filter (\<lambda>l. lead_status l = ''converted'') (leads s))"
  by (simp_all add: get_lead_stats_def count_documents_def Let_def)

lemma count_list_distinct: "distinct xs \<Longrightarrow> x \<in> set xs \<Longrightarrow> count_list xs x = 1"
  by (induction xs) auto

lemma source_no_inj: "source_no i = source_no j \<longleftrightarrow> i = j"
proof
  assume "source_no i = source_no j"
  then have "length (source_no i) = length (source_no j)" by simp
  then show "i = j" by (simp add: source_no_def)
qed simp

lemma many_sources:
  assumes "100 \<le> n"
  shows "total (get_lead_stats (run empty_db (lead_requests n))) = n \<and>
     sum_list (map snd (by_source (get_lead_stats (run empty_db (lead_requests n))))) = 100"
proof -
  let ?S = "run empty_db (lead_requests n)"
  have src: "map lead_source (leads ?S) = map source_no [0..<n]"
    by (simp add: leads_sample Lead_of_def comp_def)
  have dist: "distinct (map source_no [0..<n])"
    by (simp add: distinct_map inj_on_def source_no_inj)
  have one: "count_list (map source_no [0..<n]) k = 1" if "k \<in> set (map source_no [0..<n])" for k
    using that dist by (simp add: count_list_distinct)
  have "map snd (group_count lead_source (leads ?S)) = map (\<lambda>k. 1) (map source_no [0..<n])"
    using one by (simp add: group_count_def src distinct_remdups_id[OF dist] comp_def)
  then have all: "map snd (group_count lead_source (leads ?S)) = replicate n 1"
    by (simp add: map_replicate_const)
  have "sum_list (map snd (by_source (get_lead_stats ?S))) =
      sum_list (take 100 (map snd (group_count lead_source (leads ?S))))"
    by (simp only: by_source_eq take_map)
  also have "\<dots> = 100"
    unfolding all using assms by (simp add: min_def sum_list_replicate)
  finally show ?thesis by (simp add: stats_fields leads_sample)
qed

section \<open>The claims\<close>

subsection \<open>Creating a lead\<close>

text \<open>
  C4, as the claim states it, fails in its last part: the record that is persisted is
  not the record that is returned. The handler answers with the \<open>Lead\<close> it built, whose
  \<open>created_at\<close> is the clock reading to the microsecond; the store keeps whole
  milliseconds. At a clock reading of 1736899200123456 the stored \<open>created_at\<close> is
  1736899200123000. Nor does the handler make the id unique: it stores the uuid it
  drew, and a draw that repeats an id leaves two leads with that id.
\<close>

theorem returned_lead_differs_from_stored:
  "snd (create_lead empty_db ''L1'' 1736899200123456 test_submission) =
     Inr (Lead_of ''L1'' 1736899200123456 test_submission) \<and>
   leads (fst (create_lead empty_db ''L1'' 1736899200123456 test_submission)) =
     [Lead_of ''L1'' 1736899200123000 test_submission] \<and>
   Lead_of ''L1'' 1736899200123000 test_submission \<noteq>
     Lead_of ''L1'' 1736899200123456 test_submission \<and>
   \<not> distinct (map lead_id (leads (run empty_db
       [CreateLead ''L1'' 0 test_submission, CreateLead ''L1'' 1000 test_submission])))"
  by (simp add: create_lead_eq bson_datetime_def Lead_of_def run_def empty_db_def)

text \<open>
  C4, amended. For every submission, \<open>create_lead\<close> answers with a record whose id is
  the uuid drawn for the request, whose status is "new", whose \<open>created_at\<close> is the clock
  reading, and whose name, whatsapp, city, model and source are those submitted. The
  record appended to the leads collection is that record with \<open>created_at\<close> cut to whole
  milliseconds. The id is as unique as the draw: the ids of the collection stay
  pairwise different when the drawn uuid is not yet among them, and do not when it is.
\<close>

theorem create_lead_record:
  "create_lead s uid now lead_data =
     (s\<lparr>leads := leads s @
          [\<lparr>lead_id = uid, lead_name = lc_name lead_data,
            lead_whatsapp = lc_whatsapp lead_data, lead_city = lc_city lead_data,
            lead_model = lc_model lead_data, lead_source = lc_source lead_data,
            lead_status = ''new'', lead_created_at = now div 1000 * 1000\<rparr>]\<rparr>,
      Inr \<lparr>lead_id = uid, lead_name = lc_name lead_data,
           lead_whatsapp = lc_whatsapp lead_data, lead_city = lc_city lead_data,
           lead_model = lc_model lead_data, lead_source = lc_source lead_data,
           lead_status = ''new'', lead_created_at = now\<rparr>) \<and>
   (uid \<notin> set (map lead_id (leads s)) \<and> distinct (map lead_id (leads s)) \<longrightarrow>
      distinct (map lead_id (leads (fst (create_lead s uid now lead_data))))) \<and>
   (uid \<in> set (map lead_id (leads s)) \<longrightarrow>
      \<not> distinct (map lead_id (leads (fst (create_lead s uid now lead_data)))))"
  by (simp add: create_lead_eq bson_datetime_def Lead_of_def)

theorem create_lead_record_witness:
  "create_lead empty_db ''L1'' 1736899200123456 test_submission =
     (empty_db\<lparr>leads :=
          [\<lparr>lead_id = ''L1'', lead_name = lc_name test_submission,
            lead_whatsapp = lc_whatsapp test_submission, lead_city = lc_city test_submission,
            lead_model = lc_model test_submission, lead_source = lc_source test_submission,
            lead_status = ''new'', lead_created_at = 1736899200123000\<rparr>]\<rparr>,
      Inr \<lparr>lead_id = ''L1'', lead_name = lc_name test_submission,
           lead_whatsapp = lc_whatsapp test_submission, lead_city = lc_city test_submission,
           lead_model = lc_model test_submission, lead_source = lc_source test_submission,
           lead_status = ''new'', lead_created_at = 1736899200123456\<rparr>) \<and>
   ''L1'' \<notin> set (map lead_id (leads empty_db)) \<and>
   distinct (map lead_id (leads empty_db)) \<and>
   distinct (map lead_id
     (leads (fst (create_lead empty_db ''L1'' 1736899200123456 test_submission)))) \<and>
   ''L1'' \<in> set (map lead_id
     (leads (fst (create_lead empty_db ''L1'' 1736899200123456 test_submission)))) \<and>
   \<not> distinct (map lead_id
     (leads (fst (create_lead
        (fst (create_lead empty_db ''L1'' 1736899200123456 test_submission))
        ''L1'' 1736899200999999 test_submission))))"
proof -
  have fresh: "''L1'' \<notin> set (map lead_id (leads empty_db))"
    and dist: "distinct (map lead_id (leads empty_db))"
    and emp: "leads empty_db = []"
    by (simp_all add: empty_db_def)
  have cut: "(1736899200123456::int) div 1000 * 1000 = 1736899200123000" by simp
  have taken: "''L1'' \<in> set (map lead_id
      (leads (fst (create_lead empty_db ''L1'' 1736899200123456 test_submission))))"
    by (simp add: create_lead_eq Lead_of_def)
  from create_lead_record[of empty_db "''L1''" 1736899200123456 test_submission]
    fresh dist emp cut
  have first: "create_lead empty_db ''L1'' 1736899200123456 test_submission =
     (empty_db\<lparr>leads :=
          [\<lparr>lead_id = ''L1'', lead_name = lc_name test_submission,
            lead_whatsapp = lc_whatsapp test_submission, lead_city = lc_city test_submission,
            lead_model = lc_model test_submission, lead_source = lc_source test_submission,
            lead_status = ''new'', lead_created_at = 1736899200123000\<rparr>]\<rparr>,
      Inr \<lparr>lead_id = ''L1'', lead_name = lc_name test_submission,
           lead_whatsapp = lc_whatsapp test_submission, lead_city = lc_city test_submission,
           lead_model = lc_model test_submission, lead_source = lc_source test_submission,
           lead_status = ''new'', lead_created_at = 1736899200123456\<rparr>)"
    and d1: "distinct (map lead_id
      (leads (fst (create_lead empty_db ''L1'' 1736899200123456 test_submission))))"
    by simp_all
  from create_lead_record[of
      "fst (create_lead empty_db ''L1'' 1736899200123456 test_submission)" "''L1''"
      1736899200999999 test_submission] taken
  have d2: "\<not> distinct (map lead_id
     (leads (fst (create_lead
        (fst (create_lead empty_db ''L1'' 1736899200123456 test_submission))
        ''L1'' 1736899200999999 test_submission))))"
    by blast
  from first d1 d2 taken fresh dist show ?thesis by blast
qed

subsection \<open>A status update that changes nothing\<close>

text \<open>
  C2. \<open>update_lead_status\<close> is to fail with "Lead not found" exactly when no record
  matched the id. The handler tests \<open>modified_count\<close>: a lead that exists and already
  has the requested status is matched but not modified, and the answer is the 404.
  Here the lead ''L1'' has just been created with status "new" and is set to "new".
\<close>

theorem update_lead_status_same_status:
  "lead_id (Lead_of ''L1'' 0 test_submission) = ''L1'' \<and>
   leads (fst (create_lead empty_db ''L1'' 0 test_submission)) =
     [Lead_of ''L1'' 0 test_submission] \<and>
   update_lead_status (fst (create_lead empty_db ''L1'' 0 test_submission)) ''L1'' ''new'' =
     (fst (create_lead empty_db ''L1'' 0 test_submission),
      Inl (HTTPException 404 ''Lead not found''))"
  by (simp add: create_lead_eq update_lead_status_def empty_db_def Lead_of_def bson_datetime_def)

subsection \<open>Updating or deleting a car that is not there\<close>

text \<open>
  C7, as the claim states it, fails for the update: the payload is encoded before the
  store is asked, and a year that does not fit in 64 bits makes the driver raise
  \<open>OverflowError\<close>, which the handler does not catch. For the id "kombi-1975", which no
  seeded car has, and a payload with year \<open>2^63\<close> the answer is that error and not the
  404.
\<close>

theorem missing_car_overflow:
  "''kombi-1975'' \<notin> set (map car_id (cars (startup_event empty_db))) \<and>
   update_car (startup_event empty_db) ''kombi-1975''
     ((initial_cars ! 0)\<lparr>car_year := 9223372036854775808\<rparr>) =
     (startup_event empty_db, Inl OverflowError)"
  by (simp add: seeded_db seed_ids update_car_overflow bson_int_ok_def)

text \<open>
  C7, amended. For every car id that no document of the cars collection has,
  \<open>delete_car\<close> answers 404 "Car not found"; \<open>update_car\<close> answers 404 "Car not found"
  when the year and the installments of the payload fit in 64 bits signed, and fails
  with the driver's \<open>OverflowError\<close> when they do not. In each case the database is
  left as it was.
\<close>

theorem missing_car_not_found:
  "cid \<notin> set (map car_id (cars s)) \<Longrightarrow>
     delete_car s cid = (s, Inl (HTTPException 404 ''Car not found'')) \<and>
     (bson_int_ok (car_year car_data) \<and> bson_int_ok (car_installments car_data) \<longrightarrow>
        update_car s cid car_data = (s, Inl (HTTPException 404 ''Car not found''))) \<and>
     (\<not> (bson_int_ok (car_year car_data) \<and> bson_int_ok (car_installments car_data)) \<longrightarrow>
        update_car s cid car_data = (s, Inl OverflowError))"
proof -
  assume "cid \<notin> set (map car_id (cars s))"
  then have nomatch: "\<forall>d\<in>set (cars s). \<not> (car_id d = cid)" by auto
  have "delete_car s cid = (s, Inl (HTTPException 404 ''Car not found''))"
    by (simp add: delete_car_def update_one_no_match[OF nomatch])
  moreover have "update_car s cid car_data = (s, Inl (HTTPException 404 ''Car not found''))"
    if "bson_int_ok (car_year car_data) \<and> bson_int_ok (car_installments car_data)"
    by (simp add: update_car_encoded[OF that] update_one_no_match[OF nomatch])
  ultimately show ?thesis
    using update_car_overflow[of car_data s cid] by blast
qed

theorem missing_car_not_found_witness:
  "''kombi-1975'' \<notin> set (map car_id (cars (startup_event empty_db))) \<and>
   bson_int_ok (car_year (initial_cars ! 0)) \<and>
   bson_int_ok (car_installments (initial_cars ! 0)) \<and>
   delete_car (startup_event empty_db) ''kombi-1975'' =
     (startup_event empty_db, Inl (HTTPException 404 ''Car not found'')) \<and>
   update_car (startup_event empty_db) ''kombi-1975'' (initial_cars ! 0) =
     (startup_event empty_db, Inl (HTTPException 404 ''Car not found'')) \<and>
   \<not> bson_int_ok (car_year ((initial_cars ! 0)\<lparr>car_year := - 9223372036854775809\<rparr>)) \<and>
   update_car (startup_event empty_db) ''kombi-1975''
     ((initial_cars ! 0)\<lparr>car_year := - 9223372036854775809\<rparr>) =
     (startup_event empty_db, Inl OverflowError)"
proof -
  have absent: "''kombi-1975'' \<notin> set (map car_id (cars (startup_event empty_db)))"
    by (simp add: seeded_db seed_ids)
  have fits: "bson_int_ok (car_year (initial_cars ! 0))"
    "bson_int_ok (car_installments (initial_cars ! 0))"
    by (simp_all add: initial_cars_def bson_int_ok_def)
  have big: "\<not> bson_int_ok (car_year ((initial_cars ! 0)\<lparr>car_year := - 9223372036854775809\<rparr>))"
    by (simp add: bson_int_ok_def)
  from missing_car_not_found[OF absent, of "initial_cars ! 0"] fits
  have a: "delete_car (startup_event empty_db) ''kombi-1975'' =
      (startup_event empty_db, Inl (HTTPException 404 ''Car not found''))"
    "update_car (startup_event empty_db) ''kombi-1975'' (initial_cars ! 0) =
      (startup_event empty_db, Inl (HTTPException 404 ''Car not found''))"
    by blast+
  from missing_car_not_found[OF absent,
      of "(initial_cars ! 0)\<lparr>car_year := - 9223372036854775809\<rparr>"] big
  have b: "update_car (startup_event empty_db) ''kombi-1975''
      ((initial_cars ! 0)\<lparr>car_year := - 9223372036854775809\<rparr>) =
      (startup_event empty_db, Inl OverflowError)"
    by blast
  from absent fits big a b show ?thesis by blast
qed

subsection \<open>Seeding at startup\<close>

text \<open>
  C6. \<open>startup_event\<close> seeds exactly when the cars collection is empty, and seeding does
  change the database. When the cars collection holds a document, active or not, the
  startup routine leaves the whole database as it is, whatever the testimonials and
  blog posts collections hold. After a startup the cars collection is not empty, and
  no request empties it, so a later startup never seeds again.
\<close>

theorem startup_seeds_once:
  "startup_event s = (if cars s = [] then populate_initial_data s else s) \<and>
   populate_initial_data s \<noteq> s \<and>
   (cars s \<noteq> [] \<longrightarrow> startup_event s = s) \<and>
   startup_event (startup_event s) = startup_event s \<and>
   (cars s \<noteq> [] \<longrightarrow> startup_event (run s rs) = run s rs)"
proof -
  have "cars (populate_initial_data s) \<noteq> cars s"
    by (simp add: populate_initial_data_def insert_many_def initial_cars_def)
  then have "populate_initial_data s \<noteq> s" by auto
  then show ?thesis
    using cars_startup[of s] cars_run[of s rs] by (simp add: startup_event_eq)
qed

theorem startup_seeds_once_witness:
  "cars (empty_db\<lparr>cars := [(initial_cars ! 0)\<lparr>car_is_active := False\<rparr>]\<rparr>) \<noteq> [] \<and>
   testimonials (empty_db\<lparr>cars := [(initial_cars ! 0)\<lparr>car_is_active := False\<rparr>]\<rparr>) = [] \<and>
   blog_posts (empty_db\<lparr>cars := [(initial_cars ! 0)\<lparr>car_is_active := False\<rparr>]\<rparr>) = [] \<and>
   startup_event (empty_db\<lparr>cars := [(initial_cars ! 0)\<lparr>car_is_active := False\<rparr>]\<rparr>) =
     empty_db\<lparr>cars := [(initial_cars ! 0)\<lparr>car_is_active := False\<rparr>]\<rparr> \<and>
   startup_event
     (run (empty_db\<lparr>cars := [(initial_cars ! 0)\<lparr>car_is_active := False\<rparr>]\<rparr>)
        [CreateTestimonial (initial_testimonials ! 0)]) =
     run (empty_db\<lparr>cars := [(initial_cars ! 0)\<lparr>car_is_active := False\<rparr>]\<rparr>)
       [CreateTestimonial (initial_testimonials ! 0)]"
proof -
  have nonempty: "cars (empty_db\<lparr>cars := [(initial_cars ! 0)\<lparr>car_is_active := False\<rparr>]\<rparr>) \<noteq> []"
    by simp
  have others: "testimonials (empty_db\<lparr>cars := [(initial_cars ! 0)\<lparr>car_is_active := False\<rparr>]\<rparr>) = []"
    "blog_posts (empty_db\<lparr>cars := [(initial_cars ! 0)\<lparr>car_is_active := False\<rparr>]\<rparr>) = []"
    by (simp_all add: empty_db_def)
  from startup_seeds_once[of "empty_db\<lparr>cars := [(initial_cars ! 0)\<lparr>car_is_active := False\<rparr>]\<rparr>"
      "[CreateTestimonial (initial_testimonials ! 0)]"] nonempty others
  show ?thesis by blast
qed

subsection \<open>A blog post by its slug\<close>

text \<open>
  C10. \<open>get_blog_post_by_slug\<close> answers with a post only if that post is in the
  collection, has the slug and is published, and it does answer with one whenever such
  a post exists. When every document with the slug is unpublished the answer is 404
  "Post not found", the very answer given for a slug that no document has (as in the
  empty database).
\<close>

theorem blog_post_by_slug_published_only:
  "(get_blog_post_by_slug s slug = Inr post \<longrightarrow>
      post \<in> set (blog_posts s) \<and> bp_slug post = slug \<and> bp_is_published post) \<and>
   ((\<exists>p\<in>set (blog_posts s). bp_slug p = slug \<and> bp_is_published p) \<longrightarrow>
      (\<exists>p. get_blog_post_by_slug s slug = Inr p)) \<and>
   ((\<forall>p\<in>set (blog_posts s). bp_slug p = slug \<longrightarrow> \<not> bp_is_published p) \<longrightarrow>
      get_blog_post_by_slug s slug = Inl (HTTPException 404 ''Post not found'') \<and>
      get_blog_post_by_slug s slug = get_blog_post_by_slug empty_db slug)"
proof (intro conjI impI)
  assume "get_blog_post_by_slug s slug = Inr post"
  then have "List.find (\<lambda>p. bp_slug p = slug \<and> bp_is_published p = True) (blog_posts s)
      = Some post"
    by (simp add: get_blog_post_by_slug_def find_one_def split: option.splits)
  then obtain i where "i < length (blog_posts s)"
    "bp_slug (blog_posts s ! i) = slug \<and> bp_is_published (blog_posts s ! i) = True"
    "post = blog_posts s ! i"
    unfolding find_Some_iff by blast
  then show "post \<in> set (blog_posts s)" "bp_slug post = slug" "bp_is_published post"
    by simp_all
next
  assume "\<exists>p\<in>set (blog_posts s). bp_slug p = slug \<and> bp_is_published p"
  then have "List.find (\<lambda>p. bp_slug p = slug \<and> bp_is_published p = True) (blog_posts s)
      \<noteq> None"
    by (auto simp: find_None_iff)
  then show "\<exists>p. get_blog_post_by_slug s slug = Inr p"
    by (auto simp: get_blog_post_by_slug_def find_one_def split: option.splits)
next
  assume "\<forall>p\<in>set (blog_posts s). bp_slug p = slug \<longrightarrow> \<not> bp_is_published p"
  then have "List.find (\<lambda>p. bp_slug p = slug \<and> bp_is_published p = True) (blog_posts s)
      = None"
    by (auto simp: find_None_iff)
  then show "get_blog_post_by_slug s slug = Inl (HTTPException 404 ''Post not found'')"
    by (simp add: get_blog_post_by_slug_def find_one_def)
  then show "get_blog_post_by_slug s slug = get_blog_post_by_slug empty_db slug"
    by (simp add: get_blog_post_by_slug_def find_one_def empty_db_def)
qed

theorem blog_post_by_slug_published_only_witness:
  "bp_is_published (initial_blog_posts ! 0) \<and>
   (\<exists>p. get_blog_post_by_slug (startup_event empty_db) ''consorcio-vs-financiamento'' = Inr p) \<and>
   \<not> bp_is_published ((initial_blog_posts ! 0)\<lparr>bp_is_published := False\<rparr>) \<and>
   get_blog_post_by_slug
     (empty_db\<lparr>blog_posts := [(initial_blog_posts ! 0)\<lparr>bp_is_published := False\<rparr>]\<rparr>)
     ''consorcio-vs-financiamento'' = Inl (HTTPException 404 ''Post not found'') \<and>
   get_blog_post_by_slug
     (empty_db\<lparr>blog_posts := [(initial_blog_posts ! 0)\<lparr>bp_is_published := False\<rparr>]\<rparr>)
     ''consorcio-vs-financiamento'' =
   get_blog_post_by_slug empty_db ''consorcio-vs-financiamento''"
proof -
  have seeded: "blog_posts (startup_event empty_db) = initial_blog_posts"
    by (simp add: startup_event_eq empty_db_def populate_initial_data_def insert_many_def)
  have first: "initial_blog_posts ! 0 \<in> set initial_blog_posts"
    "bp_slug (initial_blog_posts ! 0) = ''consorcio-vs-financiamento''"
    "bp_is_published (initial_blog_posts ! 0)"
    by (simp_all add: initial_blog_posts_def)
  then have published:
    "\<exists>p\<in>set (blog_posts (startup_event empty_db)).
       bp_slug p = ''consorcio-vs-financiamento'' \<and> bp_is_published p"
    unfolding seeded by blast
  have hidden:
    "\<forall>p\<in>set (blog_posts
        (empty_db\<lparr>blog_posts := [(initial_blog_posts ! 0)\<lparr>bp_is_published := False\<rparr>]\<rparr>)).
       bp_slug p = ''consorcio-vs-financiamento'' \<longrightarrow> \<not> bp_is_published p"
    by simp
  from blog_post_by_slug_published_only[of "startup_event empty_db"
      "''consorcio-vs-financiamento''"] published
  have a: "\<exists>p. get_blog_post_by_slug (startup_event empty_db) ''consorcio-vs-financiamento''
      = Inr p"
    by blast
  from blog_post_by_slug_published_only[of
      "empty_db\<lparr>blog_posts := [(initial_blog_posts ! 0)\<lparr>bp_is_published := False\<rparr>]\<rparr>"
      "''consorcio-vs-financiamento''"] hidden
  have b: "get_blog_post_by_slug
     (empty_db\<lparr>blog_posts := [(initial_blog_posts ! 0)\<lparr>bp_is_published := False\<rparr>]\<rparr>)
     ''consorcio-vs-financiamento'' = Inl (HTTPException 404 ''Post not found'') \<and>
   get_blog_post_by_slug
     (empty_db\<lparr>blog_posts := [(initial_blog_posts ! 0)\<lparr>bp_is_published := False\<rparr>]\<rparr>)
     ''consorcio-vs-financiamento'' =
   get_blog_post_by_slug empty_db ''consorcio-vs-financiamento''"
    by blast
  have c: "\<not> bp_is_published ((initial_blog_posts ! 0)\<lparr>bp_is_published := False\<rparr>)"
    by simp
  from a b c first(3) show ?thesis by blast
qed

subsection \<open>An update replaces the document\<close>




subsection \<open>Uniqueness of ids\<close>

text \<open>
  C5, as the claim states it, fails: \<open>create_car\<close> stores the id of the body as it
  comes and no handler compares an id with the collection. Posting the first seeded
  car again after startup leaves two cars with the id "golf-gti-2025".
\<close>

theorem duplicate_car_id_after_create:
  "\<not> unique_ids (run empty_db [Startup, CreateCar (initial_cars ! 0)])"
  by (simp add: run_def startup_event_eq empty_db_def populate_initial_data_def
      insert_many_def create_car_def bson_car_def bson_int_ok_def insert_one_def
      unique_ids_def seed_ids initial_cars_def)

text \<open>
  C5, amended. The empty database has unique ids, and from a database with unique ids
  every sequence of requests in which each request brings no id already held by its
  collection leads to a database with unique ids in the leads, cars, testimonials and
  blog posts collections.
\<close>

theorem ids_unique_while_new:
  "unique_ids empty_db \<and>
   (unique_ids s \<and> new_ids_throughout s rs \<longrightarrow> unique_ids (run s rs))"
proof
  show "unique_ids empty_db" by (simp add: unique_ids_def empty_db_def)
  have "unique_ids s \<Longrightarrow> new_ids_throughout s rs \<Longrightarrow> unique_ids (foldl handle s rs)"
  proof (induction rs arbitrary: s)
    case Nil
    then show ?case by simp
  next
    case (Cons r rs)
    from Cons.prems have "unique_ids (handle s r)" "new_ids_throughout (handle s r) rs"
      by (simp_all add: unique_ids_handle)
    from Cons.IH[OF this] show ?case by simp
  qed
  then show "unique_ids s \<and> new_ids_throughout s rs \<longrightarrow> unique_ids (run s rs)"
    by (simp add: run_def)
qed

theorem ids_unique_while_new_witness:
  "new_ids_throughout empty_db
     [Startup, CreateLead ''L1'' 7 test_submission, UpdateCar ''nivus-2025'' (initial_cars ! 3),
      DeleteCar ''nivus-2025'', UpdateLeadStatus ''L1'' ''contacted''] \<and>
   unique_ids (run empty_db
     [Startup, CreateLead ''L1'' 7 test_submission, UpdateCar ''nivus-2025'' (initial_cars ! 3),
      DeleteCar ''nivus-2025'', UpdateLeadStatus ''L1'' ''contacted''])"
proof -
  have n3: "car_id (initial_cars ! 3) = ''nivus-2025''" by (simp add: initial_cars_def)
  have new: "new_ids_throughout empty_db
     [Startup, CreateLead ''L1'' 7 test_submission, UpdateCar ''nivus-2025'' (initial_cars ! 3),
      DeleteCar ''nivus-2025'', UpdateLeadStatus ''L1'' ''contacted'']"
    by (simp add: startup_event_eq empty_db_def populate_initial_data_def insert_many_def
        create_lead_eq n3)
  from ids_unique_while_new[of empty_db] new show ?thesis by blast
qed

subsection \<open>Listing the leads\<close>

text \<open>
  C3. \<open>get_leads\<close> is to answer with all leads of the collection, newest first; its
  docstring says "Get all leads". The handler reads the sorted cursor with
  \<open>to_list(1000)\<close>: after 1001 lead creations on the empty database the collection
  holds 1001 leads, \<open>get_lead_stats\<close> counts 1001, and \<open>get_leads\<close> answers with 1000
  records.
\<close>

theorem get_leads_capped:
  "length (lead_requests 1001) = 1001 \<and>
   length (leads (run empty_db (lead_requests 1001))) = 1001 \<and>
   total (get_lead_stats (run empty_db (lead_requests 1001))) = 1001 \<and>
   length (get_leads (run empty_db (lead_requests 1001))) = 1000"
proof -
  have "length (lead_requests 1001) = 1001" by (simp add: lead_requests_def)
  moreover have "length (leads (run empty_db (lead_requests 1001))) = 1001"
    by (simp add: leads_sample)
  ultimately show ?thesis by (simp add: get_leads_length stats_fields)
qed

subsection \<open>Free-text status\<close>

text \<open>
  C8. \<open>update_lead_status\<close> is to succeed for an existing lead and any status string,
  and the new status is to show on that lead in the following \<open>get_leads\<close>. Two
  defects of the handlers break this. The test on \<open>modified_count\<close> (see C2): the lead
  ''L1'' is set to "archived", which succeeds, and set to "archived" once more, which is
  answered 404 "Lead not found". The limit of \<open>get_leads\<close> (see C3): of 1001 leads the
  oldest is set to "archived" with success, and no record of the following \<open>get_leads\<close>
  has its id.
\<close>

theorem status_update_not_reflected:
  "snd (update_lead_status (fst (create_lead empty_db ''L1'' 0 test_submission))
          ''L1'' ''archived'') = Inr ''Lead updated successfully'' \<and>
   ''L1'' \<in> set (map lead_id (leads (fst (update_lead_status
       (fst (create_lead empty_db ''L1'' 0 test_submission)) ''L1'' ''archived'')))) \<and>
   snd (update_lead_status
          (fst (update_lead_status (fst (create_lead empty_db ''L1'' 0 test_submission))
                  ''L1'' ''archived''))
          ''L1'' ''archived'') = Inl (HTTPException 404 ''Lead not found'') \<and>
   uuid_no 0 \<in> set (map lead_id (leads (run empty_db (lead_requests 1001)))) \<and>
   snd (update_lead_status (run empty_db (lead_requests 1001)) (uuid_no 0) ''archived'') =
     Inr ''Lead updated successfully'' \<and>
   uuid_no 0 \<notin> set (map lead_id (get_leads
     (fst (update_lead_status (run empty_db (lead_requests 1001)) (uuid_no 0) ''archived''))))"
proof -
  let ?s1 = "fst (create_lead empty_db ''L1'' 0 test_submission)"
  let ?l = "Lead_of ''L1'' 0 test_submission"
  have l: "lead_id ?l = ''L1''" "lead_status ?l = ''new''"
    by (simp_all add: Lead_of_def)
  have ne: "?l\<lparr>lead_status := ''archived''\<rparr> \<noteq> ?l"
  proof
    assume "?l\<lparr>lead_status := ''archived''\<rparr> = ?l"
    then have "lead_status (?l\<lparr>lead_status := ''archived''\<rparr>) = lead_status ?l"
      by (rule arg_cong)
    then show False by (simp add: l)
  qed
  have s1: "leads ?s1 = [?l]"
    by (simp add: create_lead_eq empty_db_def bson_datetime_def)
  have first: "update_lead_status ?s1 ''L1'' ''archived'' =
      (?s1\<lparr>leads := [?l\<lparr>lead_status := ''archived''\<rparr>]\<rparr>, Inr ''Lead updated successfully'')"
    using ne by (simp add: update_lead_status_def s1 l)
  have again: "update_lead_status (?s1\<lparr>leads := [?l\<lparr>lead_status := ''archived''\<rparr>]\<rparr>)
      ''L1'' ''archived'' =
      (?s1\<lparr>leads := [?l\<lparr>lead_status := ''archived''\<rparr>]\<rparr>,
       Inl (HTTPException 404 ''Lead not found''))"
    by (simp add: update_lead_status_def l)
  have a: "snd (update_lead_status ?s1 ''L1'' ''archived'') = Inr ''Lead updated successfully''"
    and b: "''L1'' \<in> set (map lead_id (leads (fst (update_lead_status ?s1 ''L1'' ''archived''))))"
    and c: "snd (update_lead_status (fst (update_lead_status ?s1 ''L1'' ''archived''))
          ''L1'' ''archived'') = Inl (HTTPException 404 ''Lead not found'')"
    unfolding first fst_conv snd_conv again by (simp_all add: l)
  have d: "uuid_no 0 \<in> set (map lead_id (leads (run empty_db (lead_requests 1001)))) \<and>
   snd (update_lead_status (run empty_db (lead_requests 1001)) (uuid_no 0) ''archived'') =
     Inr ''Lead updated successfully'' \<and>
   uuid_no 0 \<notin> set (map lead_id (get_leads
     (fst (update_lead_status (run empty_db (lead_requests 1001)) (uuid_no 0) ''archived''))))"
    using oldest_lead_dropped[of 1000] by simp
  from a b c d show ?thesis by (intro conjI) blast+
qed

subsection \<open>Lead statistics\<close>

text \<open>
  C1, as the claim states it, fails on both sums. The status is free text: after a
  lead is created and set to "archived", \<open>total\<close> is 1 and the three status counts add
  up to 0. The groups are read with \<open>to_list(100)\<close>: after 101 creations with 101
  different sources, \<open>total\<close> is 101 and the values of \<open>by_source\<close> add up to 100.
\<close>

theorem lead_stats_sums_fail:
  "total (get_lead_stats (fst (update_lead_status
      (fst (create_lead empty_db ''L1'' 0 test_submission)) ''L1'' ''archived''))) = 1 \<and>
   new (get_lead_stats (fst (update_lead_status
      (fst (create_lead empty_db ''L1'' 0 test_submission)) ''L1'' ''archived''))) +
   contacted (get_lead_stats (fst (update_lead_status
      (fst (create_lead empty_db ''L1'' 0 test_submission)) ''L1'' ''archived''))) +
   converted (get_lead_stats (fst (update_lead_status
      (fst (create_lead empty_db ''L1'' 0 test_submission)) ''L1'' ''archived''))) = 0 \<and>
   total (get_lead_stats (run empty_db (lead_requests 101))) = 101 \<and>
   sum_list (map snd (by_source (get_lead_stats (run empty_db (lead_requests 101))))) = 100"
proof -
  have "leads (fst (update_lead_status
      (fst (create_lead empty_db ''L1'' 0 test_submission)) ''L1'' ''archived'')) =
      [(Lead_of ''L1'' 0 test_submission)\<lparr>lead_status := ''archived''\<rparr>]"
    by (simp add: create_lead_eq update_lead_status_def empty_db_def Lead_of_def
        bson_datetime_def)
  then show ?thesis
    using many_sources[of 101] by (simp add: stats_fields)
qed

text \<open>
  C1, amended. \<open>total\<close> is the number of leads. The counts of new, contacted and
  converted add up to at most \<open>total\<close>, and to \<open>total\<close> when every lead has one of these
  three statuses. The values of \<open>by_source\<close> add up to at most \<open>total\<close>, and to \<open>total\<close>
  when the leads have at most 100 different sources.
\<close>

theorem lead_stats_sums:
  "total (get_lead_stats s) = length (leads s) \<and>
   new (get_lead_stats s) + contacted (get_lead_stats s) + converted (get_lead_stats s)
     \<le> total (get_lead_stats s) \<and>
   ((\<forall>l\<in>set (leads s). lead_status l = ''new'' \<or> lead_status l = ''contacted'' \<or>
        lead_status l = ''converted'') \<longrightarrow>
      total (get_lead_stats s) =
        new (get_lead_stats s) + contacted (get_lead_stats s) + converted (get_lead_stats s)) \<and>
   sum_list (map snd (by_source (get_lead_stats s))) \<le> total (get_lead_stats s) \<and>
   (card (lead_source ` set (leads s)) \<le> 100 \<longrightarrow>
      sum_list (map snd (by_source (get_lead_stats s))) = total (get_lead_stats s))"
  using status_counts_le[of "leads s"] status_counts_eq[of "leads s"]
    by_source_sum_le[of s] by_source_sum[of s]
  by (simp add: stats_fields)

theorem lead_stats_sums_witness:
  "total (get_lead_stats (fst (create_lead empty_db ''L1'' 0 test_submission))) = 1 \<and>
   total (get_lead_stats (fst (create_lead empty_db ''L1'' 0 test_submission))) =
     new (get_lead_stats (fst (create_lead empty_db ''L1'' 0 test_submission))) +
     contacted (get_lead_stats (fst (create_lead empty_db ''L1'' 0 test_submission))) +
     converted (get_lead_stats (fst (create_lead empty_db ''L1'' 0 test_submission))) \<and>
   sum_list (map snd
     (by_source (get_lead_stats (fst (create_lead empty_db ''L1'' 0 test_submission))))) =
     total (get_lead_stats (fst (create_lead empty_db ''L1'' 0 test_submission)))"
proof -
  have leads: "leads (fst (create_lead empty_db ''L1'' 0 test_submission)) =
      [Lead_of ''L1'' 0 test_submission]"
    by (simp add: create_lead_eq empty_db_def bson_datetime_def)
  have statuses: "\<forall>l\<in>set (leads (fst (create_lead empty_db ''L1'' 0 test_submission))).
      lead_status l = ''new'' \<or> lead_status l = ''contacted'' \<or> lead_status l = ''converted''"
    by (simp add: leads Lead_of_def)
  have sources: "card (lead_source `
      set (leads (fst (create_lead empty_db ''L1'' 0 test_submission)))) \<le> 100"
    by (simp add: leads)
  have one: "length (leads (fst (create_lead empty_db ''L1'' 0 test_submission))) = 1"
    by (simp add: leads)
  from lead_stats_sums[of "fst (create_lead empty_db ''L1'' 0 test_submission)"]
    statuses sources one
  show ?thesis by simp
qed


end
